theory Spec2Isabelle
  imports Main
begin

section \<open>Data model\<close>

text \<open>
  Identifiers are the hexadecimal strings of the document store's object identifiers.
  The store's \<^verbatim>\<open>equals\<close> on identifiers is modelled as equality of these strings
  (identifiers are taken in their canonical spelling).
\<close>

type_synonym ident = string

text \<open>\<^verbatim>\<open>serviceOperationSchema\<close>: a nested operation, \<^verbatim>\<open>{ _id, name }\<close>.\<close>

record operation =
  op_id :: ident
  op_name :: string

text \<open>\<^verbatim>\<open>serviceSchema\<close>: \<^verbatim>\<open>{ _id, name, operations: [serviceOperationSchema] }\<close>.\<close>

record service =
  srv_id :: ident
  srv_name :: string
  operations :: "operation list"

text \<open>\<^verbatim>\<open>roleSchema\<close>: \<^verbatim>\<open>{ _id, name, serviceOpIds: [String] }\<close>.\<close>

record role =
  role_id :: ident
  role_name :: string
  serviceOpIds :: "ident list"

text \<open>Request bodies: \<^verbatim>\<open>IServiceOperation\<close>, \<^verbatim>\<open>IServiceDto\<close> and \<^verbatim>\<open>IRoleDto\<close>.
  The identifier of an incoming operation is optional (\<^verbatim>\<open>_id?: string\<close>).\<close>

record IServiceOperation =
  dto_op_id :: "ident option"
  dto_op_name :: string

record IServiceDto =
  dto_srv_name :: string
  dto_operations :: "IServiceOperation list"

record IRoleDto =
  dto_role_name :: string
  dto_serviceOpIds :: "ident list"

text \<open>
  The document store: the two collections, in their natural order, and the trace of the
  calls made to the store so far (every call of a model method appends one entry).
\<close>

datatype db_call =
    ServiceFind
  | ServiceFindById ident
  | ServiceSave ident
  | ServiceDeleteOne ident
  | RoleFind
  | RoleFindById ident
  | RoleSave ident
  | RoleFindOneAndUpdate ident
  | RoleDeleteOne ident

record store =
  services :: "service list"
  roles :: "role list"
  calls :: "db_call list"

text \<open>
  What a route handler's \<^verbatim>\<open>try\<close> block can throw. \<^verbatim>\<open>TypeError\<close> is the runtime's
  error on reading a property of \<^verbatim>\<open>null\<close>; \<^verbatim>\<open>Error\<close> is a plain
  \<^verbatim>\<open>new Error(msg)\<close>; \<^verbatim>\<open>RouteHandlingError\<close> carries an HTTP status;
  \<^verbatim>\<open>MongooseValidationError\<close> is the store's schema validation failing in \<^verbatim>\<open>save()\<close>;
  \<^verbatim>\<open>MongoServerError\<close> is the store rejecting a query; \<^verbatim>\<open>CastError\<close> is the
  store's driver refusing a filter whose \<^verbatim>\<open>_id\<close> is not an object identifier.
\<close>

datatype joi_detail = string_empty | string_min nat | string_max nat

datatype message = Text string | JoiMessage joi_detail

datatype exn =
    TypeError
  | Error message
  | RouteHandlingError nat message
  | MongooseValidationError
  | MongoServerError
  | CastError

text \<open>
  A handler is modelled as its \<^verbatim>\<open>try\<close> block: it returns the store and either the
  exception thrown or the response sent, \<^verbatim>\<open>res.status(n).send(s)\<close> or
  \<^verbatim>\<open>res.status(n).json(v)\<close>. (The \<^verbatim>\<open>catch\<close> block passes the exception to
  \<^verbatim>\<open>RouteErrorFormatter\<close> and sends the status and message that it returns.)
\<close>

datatype 'a body = Send string | Json 'a

type_synonym 'a response = "nat \<times> 'a body"

section \<open>Store operations\<close>

definition logged :: "db_call \<Rightarrow> store \<Rightarrow> store" where
  "logged c st = st\<lparr>calls := calls st @ [c]\<rparr>"

text \<open>\<^verbatim>\<open>ServiceModel.find({})\<close>: every registered service.\<close>

definition ServiceModel_find :: "store \<Rightarrow> service list \<times> store" where
  "ServiceModel_find st = (services st, logged ServiceFind st)"

text \<open>\<^verbatim>\<open>ServiceModel.findById(id)\<close>: the service with that identifier, or \<^verbatim>\<open>null\<close>.\<close>

definition ServiceModel_findById :: "ident \<Rightarrow> store \<Rightarrow> service option \<times> store" where
  "ServiceModel_findById i st =
     (find (\<lambda>s. srv_id s = i) (services st), logged (ServiceFindById i) st)"

text \<open>\<^verbatim>\<open>Role.findById(id)\<close>.\<close>

definition Role_findById :: "ident \<Rightarrow> store \<Rightarrow> role option \<times> store" where
  "Role_findById i st =
     (find (\<lambda>r. role_id r = i) (roles st), logged (RoleFindById i) st)"

text \<open>\<^verbatim>\<open>deleteOne({ _id: id })\<close> removes the first document with that identifier, if any.\<close>

fun deleteFirst :: "('a \<Rightarrow> bool) \<Rightarrow> 'a list \<Rightarrow> 'a list" where
  "deleteFirst p [] = []"
| "deleteFirst p (x # xs) = (if p x then xs else x # deleteFirst p xs)"

definition ServiceModel_deleteOne :: "ident \<Rightarrow> store \<Rightarrow> store" where
  "ServiceModel_deleteOne i st =
     logged (ServiceDeleteOne i) (st\<lparr>services := deleteFirst (\<lambda>s. srv_id s = i) (services st)\<rparr>)"

text \<open>
  An identifier is well-formed when it is a string of 24 hexadecimal digits.
  \<^verbatim>\<open>Role.deleteOne({ _id: id })\<close> first casts the \<^verbatim>\<open>_id\<close> of its filter to an object
  identifier: for a string that is not well-formed the call throws \<^verbatim>\<open>CastError\<close> and
  the store is not reached. (The other operations that take an identifier are written
  for the identifiers that the store holds, which are well-formed; their cast is not
  modelled.)
\<close>

definition isHexDigit :: "char \<Rightarrow> bool" where
  "isHexDigit c = (c \<in> set ''0123456789abcdefABCDEF'')"

definition wellFormed :: "ident \<Rightarrow> bool" where
  "wellFormed i = (length i = 24 \<and> list_all isHexDigit i)"

definition Role_deleteOne :: "ident \<Rightarrow> store \<Rightarrow> (exn + unit) \<times> store" where
  "Role_deleteOne i st =
     (if wellFormed i
      then (Inr (), logged (RoleDeleteOne i)
                      (st\<lparr>roles := deleteFirst (\<lambda>r. role_id r = i) (roles st)\<rparr>))
      else (Inl CastError, st))"

text \<open>Replacing the first document that satisfies \<open>p\<close>.\<close>

fun replaceFirst :: "('a \<Rightarrow> bool) \<Rightarrow> 'a \<Rightarrow> 'a list \<Rightarrow> 'a list" where
  "replaceFirst p y [] = []"
| "replaceFirst p y (x # xs) = (if p x then y # xs else x # replaceFirst p y xs)"

text \<open>
  \<^verbatim>\<open>srvc.save()\<close> of a loaded service validates the document against
  \<^verbatim>\<open>serviceSchema\<close> first: both \<^verbatim>\<open>name\<close> paths are \<^verbatim>\<open>required: true\<close>, which a
  string satisfies when it is not empty. A document that fails is not written and
  \<^verbatim>\<open>save\<close> throws; one that passes is written back under its identifier.
\<close>

definition service_valid :: "service \<Rightarrow> bool" where
  "service_valid s = (srv_name s \<noteq> [] \<and> list_all (\<lambda>opn. op_name opn \<noteq> []) (operations s))"

definition ServiceModel_save :: "service \<Rightarrow> store \<Rightarrow> (exn + service) \<times> store" where
  "ServiceModel_save s st =
     (if service_valid s
      then (Inr s, logged (ServiceSave (srv_id s))
                     (st\<lparr>services := replaceFirst (\<lambda>t. srv_id t = srv_id s) s (services st)\<rparr>))
      else (Inl MongooseValidationError, st))"

text \<open>\<^verbatim>\<open>role.save()\<close> of a new document, against \<^verbatim>\<open>roleSchema\<close>: the name and
  every element of \<^verbatim>\<open>serviceOpIds\<close> are required strings. The document is inserted;
  the store refuses a second document with the same \<^verbatim>\<open>_id\<close>.\<close>

definition role_valid :: "role \<Rightarrow> bool" where
  "role_valid r = (role_name r \<noteq> [] \<and> list_all (\<lambda>i. i \<noteq> []) (serviceOpIds r))"

definition Role_save :: "role \<Rightarrow> store \<Rightarrow> (exn + role) \<times> store" where
  "Role_save r st =
     (if \<not> role_valid r then (Inl MongooseValidationError, st)
      else if list_ex (\<lambda>t. role_id t = role_id r) (roles st)
      then (Inl MongoServerError, logged (RoleSave (role_id r)) st)
      else (Inr r, logged (RoleSave (role_id r)) (st\<lparr>roles := roles st @ [r]\<rparr>)))"

text \<open>
  \<^verbatim>\<open>Role.findOneAndUpdate({ _id: id }, newRole, { new: true })\<close>: sets the fields of the
  request body on the first role with that identifier and returns the updated role;
  returns \<^verbatim>\<open>null\<close> and writes nothing when there is none (no upsert). Schema validators
  are not run by an update.
\<close>

definition Role_findOneAndUpdate :: "ident \<Rightarrow> IRoleDto \<Rightarrow> store \<Rightarrow> role option \<times> store" where
  "Role_findOneAndUpdate i newRole st =
     (case find (\<lambda>r. role_id r = i) (roles st) of
        None \<Rightarrow> (None, logged (RoleFindOneAndUpdate i) st)
      | Some r \<Rightarrow>
          (let r' = r\<lparr>role_name := dto_role_name newRole,
                      serviceOpIds := dto_serviceOpIds newRole\<rparr>
           in (Some r', logged (RoleFindOneAndUpdate i)
                          (st\<lparr>roles := replaceFirst (\<lambda>t. role_id t = i) r' (roles st)\<rparr>))))"

section \<open>The Reference Validator: \<^verbatim>\<open>validateServiceOps\<close>\<close>

text \<open>
  \<^verbatim>\<open>
  for (let i = 0; i < serviceOpIds.length && isValid === true; i++) {
      let foundOpsId = false;
      for (let srvIdx = 0; srvIdx < services.length && foundOpsId === false; srvIdx++) {
          for (let srvOps = 0; srvOps < services[srvIdx].operations.length && foundOpsId === false; srvOps++) {
              foundOpsId = services[srvIdx].operations[srvOps].equals(serviceOpIds[i]);
          }
      }
      isValid = foundOpsId;
  }
  return isValid;
  \<close>
  The three loops, each with the flag it tests in its condition. \<^verbatim>\<open>equals\<close> of a nested
  operation document compares the document's \<^verbatim>\<open>_id\<close> with its argument.
\<close>

definition equals :: "operation \<Rightarrow> ident \<Rightarrow> bool" where
  "equals opn x = (op_id opn = x)"

fun opsLoop :: "operation list \<Rightarrow> ident \<Rightarrow> bool \<Rightarrow> bool" where
  "opsLoop [] x foundOpsId = foundOpsId"
| "opsLoop (opn # ops) x foundOpsId =
     (if foundOpsId = False then opsLoop ops x (equals opn x) else foundOpsId)"

fun srvLoop :: "service list \<Rightarrow> ident \<Rightarrow> bool \<Rightarrow> bool" where
  "srvLoop [] x foundOpsId = foundOpsId"
| "srvLoop (s # ss) x foundOpsId =
     (if foundOpsId = False then srvLoop ss x (opsLoop (operations s) x foundOpsId)
      else foundOpsId)"

fun idsLoop :: "service list \<Rightarrow> ident list \<Rightarrow> bool \<Rightarrow> bool" where
  "idsLoop svcs [] isValid = isValid"
| "idsLoop svcs (x # xs) isValid =
     (if isValid = True then idsLoop svcs xs (srvLoop svcs x False) else isValid)"

definition validateServiceOps :: "ident list \<Rightarrow> store \<Rightarrow> bool \<times> store" where
  "validateServiceOps ids st =
     (let (svcs, st1) = ServiceModel_find st in (idsLoop svcs ids True, st1))"

text \<open>An identifier is registered when it is the identifier of an operation of a service.\<close>

definition registered :: "service list \<Rightarrow> ident \<Rightarrow> bool" where
  "registered svcs x = (\<exists>s \<in> set svcs. \<exists>opn \<in> set (operations s). op_id opn = x)"

section \<open>The audit sink: \<^verbatim>\<open>sendAudit\<close>\<close>

text \<open>
  The environment of a request: whether auditing is enabled
  (\<^verbatim>\<open>AUDIT_ENABLED\<close>) and whether the post to the audit service goes through.
  Any exception inside \<^verbatim>\<open>sendAudit\<close> is rethrown as \<^verbatim>\<open>RouteHandlingError(424, ...)\<close>.
\<close>

record env =
  audit_enabled :: bool
  audit_post_ok :: bool

datatype HttpMethod = Post | Put | Delete | Patch | Get

definition auditRefused :: exn where
  "auditRefused =
     RouteHandlingError 424 (Text
       ''Auditing enabled but connection refused. Ensure the audit service is running an the API key is correct.'')"

definition sendAudit :: "env \<Rightarrow> HttpMethod \<Rightarrow> string \<Rightarrow> exn + unit" where
  "sendAudit e method data =
     (if audit_enabled e = True
      then (if audit_post_ok e then Inr () else Inl auditRefused)
      else Inr ())"

section \<open>The Role Expander: \<^verbatim>\<open>POST /api/v1/rolexpand\<close>\<close>

text \<open>
  \<^verbatim>\<open>
  let srvcOpIds: string[] = [];
  for (let i = 0; i < roleIds.length; i++) {
      const role = await Role.findById(roleIds[i]);
      srvcOpIds = srvcOpIds.concat(role.serviceOpIds);
  }
  return res.status(201).json(srvcOpIds);
  \<close>
  There is no test of \<^verbatim>\<open>role\<close> against \<^verbatim>\<open>null\<close>: reading \<^verbatim>\<open>role.serviceOpIds\<close>
  of a missing role throws the runtime's \<^verbatim>\<open>TypeError\<close>.
\<close>

fun expandLoop :: "ident list \<Rightarrow> ident list \<Rightarrow> store \<Rightarrow> (exn + ident list) \<times> store" where
  "expandLoop [] srvcOpIds st = (Inr srvcOpIds, st)"
| "expandLoop (r # rs) srvcOpIds st =
     (case Role_findById r st of
        (None, st1) \<Rightarrow> (Inl TypeError, st1)
      | (Some role, st1) \<Rightarrow> expandLoop rs (srvcOpIds @ serviceOpIds role) st1)"

definition rolexpand_post :: "ident list \<Rightarrow> store \<Rightarrow> (exn + ident list response) \<times> store" where
  "rolexpand_post roleIds st =
     (case expandLoop roleIds [] st of
        (Inl ex, st1) \<Rightarrow> (Inl ex, st1)
      | (Inr srvcOpIds, st1) \<Rightarrow> (Inr (201, Json srvcOpIds), st1))"

section \<open>Services: \<^verbatim>\<open>DELETE\<close> and \<^verbatim>\<open>PUT /api/v1/services/:id\<close>\<close>

definition services_delete :: "env \<Rightarrow> ident \<Rightarrow> store \<Rightarrow> (exn + unit response) \<times> store" where
  "services_delete e serviceId st =
     (let st1 = ServiceModel_deleteOne serviceId st in
      case sendAudit e Delete (''Delete service ID: '' @ serviceId) of
        Inl ex \<Rightarrow> (Inl ex, st1)
      | Inr _ \<Rightarrow> (Inr (200, Send ''Success''), st1))"

text \<open>
  \<^verbatim>\<open>
  srvc.name = srvcData.name;
  for (let i = 0; i < srvcData.operations.length; i++) {
      for (let j = 0; j < srvc.operations.length; j++) {
          if (srvc.operations[j]._id.equals(srvcData.operations[i]._id)) {
              srvc.operations[j].name = srvcData.operations[i].name;
              break;
          }
      }
  }
  srvc = await srvc.save();
  \<close>
  \<open>renameLoop\<close> is the inner loop over the stored operations, which stops at the first
  match; \<open>updateLoop\<close> is the outer loop over the incoming operations. An incoming
  operation without \<^verbatim>\<open>_id\<close> equals no stored identifier.
\<close>

definition id_equals :: "ident \<Rightarrow> ident option \<Rightarrow> bool" where
  "id_equals i other = (case other of None \<Rightarrow> False | Some j \<Rightarrow> i = j)"

fun renameLoop :: "IServiceOperation \<Rightarrow> operation list \<Rightarrow> operation list" where
  "renameLoop inc [] = []"
| "renameLoop inc (opn # ops) =
     (if id_equals (op_id opn) (dto_op_id inc)
      then opn\<lparr>op_name := dto_op_name inc\<rparr> # ops
      else opn # renameLoop inc ops)"

fun updateLoop :: "IServiceOperation list \<Rightarrow> operation list \<Rightarrow> operation list" where
  "updateLoop [] ops = ops"
| "updateLoop (inc # incs) ops = updateLoop incs (renameLoop inc ops)"

definition services_put ::
  "env \<Rightarrow> ident \<Rightarrow> IServiceDto \<Rightarrow> store \<Rightarrow> (exn + service response) \<times> store" where
  "services_put e serviceId srvcData st =
     (case ServiceModel_findById serviceId st of
        (None, st1) \<Rightarrow>
          (Inl (RouteHandlingError 404 (Text (''Service with id '' @ serviceId @ '' not found''))), st1)
      | (Some srvc, st1) \<Rightarrow>
          (let srvc1 = srvc\<lparr>srv_name := dto_srv_name srvcData\<rparr>;
               srvc2 = srvc1\<lparr>operations := updateLoop (dto_operations srvcData) (operations srvc1)\<rparr>
           in case ServiceModel_save srvc2 st1 of
                (Inl ex, st2) \<Rightarrow> (Inl ex, st2)
              | (Inr saved, st2) \<Rightarrow>
                  (case sendAudit e Put (''Updated service ID: '' @ serviceId) of
                     Inl ex \<Rightarrow> (Inl ex, st2)
                   | Inr _ \<Rightarrow> (Inr (201, Json saved), st2))))"

section \<open>Roles: \<^verbatim>\<open>validateRole\<close>, \<^verbatim>\<open>POST\<close>, \<^verbatim>\<open>PUT\<close>, \<^verbatim>\<open>GET\<close>, \<^verbatim>\<open>DELETE\<close>\<close>

definition ROLENAME_MIN_LENGTH :: nat where
  "ROLENAME_MIN_LENGTH = 4"

definition ROLENAME_MAX_LENGTH :: nat where
  "ROLENAME_MAX_LENGTH = 40"

text \<open>
  \<^verbatim>\<open>name: Joi.string().min(ROLENAME_MIN_LENGTH).max(ROLENAME_MAX_LENGTH).required()\<close>:
  the first failing rule is reported (an empty string is refused as such).
  The result is \<^verbatim>\<open>error.details[0]\<close>, or \<open>None\<close> when there is no error.
\<close>

definition validateRole :: "IRoleDto \<Rightarrow> joi_detail option" where
  "validateRole r =
     (if dto_role_name r = [] then Some string_empty
      else if length (dto_role_name r) < ROLENAME_MIN_LENGTH then Some (string_min ROLENAME_MIN_LENGTH)
      else if length (dto_role_name r) > ROLENAME_MAX_LENGTH then Some (string_max ROLENAME_MAX_LENGTH)
      else None)"

text \<open>\<open>newId\<close> is the identifier that \<^verbatim>\<open>new Role(newRole)\<close> generates for the document.\<close>

definition roles_post :: "env \<Rightarrow> ident \<Rightarrow> IRoleDto \<Rightarrow> store \<Rightarrow> (exn + role response) \<times> store" where
  "roles_post e newId newRole st =
     (case validateRole newRole of
        Some detail \<Rightarrow> (Inl (Error (JoiMessage detail)), st)
      | None \<Rightarrow>
          (let (ok, st1) = validateServiceOps (dto_serviceOpIds newRole) st in
           if ok = True then
             (case Role_save \<lparr>role_id = newId, role_name = dto_role_name newRole,
                              serviceOpIds = dto_serviceOpIds newRole\<rparr> st1 of
                (Inl ex, st2) \<Rightarrow> (Inl ex, st2)
              | (Inr role, st2) \<Rightarrow>
                  (case sendAudit e Post
                          (''Role '' @ role_id role @ '', '' @ role_name role @ '' created.'') of
                     Inl ex \<Rightarrow> (Inl ex, st2)
                   | Inr _ \<Rightarrow> (Inr (201, Json role), st2)))
           else (Inl (Error (Text ''Service Operation ID validation failed'')), st1)))"

text \<open>The updated role sent back is \<^verbatim>\<open>null\<close> (\<open>None\<close>) when no role has the identifier.\<close>

definition roles_put ::
  "env \<Rightarrow> ident \<Rightarrow> IRoleDto \<Rightarrow> store \<Rightarrow> (exn + role option response) \<times> store" where
  "roles_put e roleId newRole st =
     (let (ok, st1) = validateServiceOps (dto_serviceOpIds newRole) st in
      if ok = True then
        (let (role, st2) = Role_findOneAndUpdate roleId newRole st1 in
         case sendAudit e Put (''Role ID: '' @ roleId @ '' was updated.'') of
           Inl ex \<Rightarrow> (Inl ex, st2)
         | Inr _ \<Rightarrow> (Inr (200, Json role), st2))
      else (Inl (RouteHandlingError 400 (Text ''Service Operation ID validation failed'')), st1))"

definition roles_get :: "ident \<Rightarrow> store \<Rightarrow> (exn + role response) \<times> store" where
  "roles_get roleId st =
     (case Role_findById roleId st of
        (None, st1) \<Rightarrow>
          (Inl (RouteHandlingError 400 (Text (''Role with ID '' @ roleId @ '' could not be found.''))), st1)
      | (Some role, st1) \<Rightarrow> (Inr (200, Json role), st1))"

definition roles_delete :: "env \<Rightarrow> ident \<Rightarrow> store \<Rightarrow> (exn + unit response) \<times> store" where
  "roles_delete e roleId st =
     (case Role_deleteOne roleId st of
        (Inl ex, st1) \<Rightarrow> (Inl ex, st1)
      | (Inr _, st1) \<Rightarrow>
          (case sendAudit e Delete (''Deleting service with ID: '' @ roleId) of
             Inl ex \<Rightarrow> (Inl ex, st1)
           | Inr _ \<Rightarrow> (Inr (201, Send ''Success''), st1)))"

section \<open>The Pager: \<^verbatim>\<open>buildResponse\<close>, \<^verbatim>\<open>getRoles\<close>, \<^verbatim>\<open>getServices\<close>\<close>

text \<open>
  Page sizes and page numbers are integers. (The source's numbers are doubles; the
  integers below \<open>2 ^ 53\<close> are exact there and print in plain decimal.)
  \<open>toString\<close> is what a template literal prints for an integer.
\<close>

definition digit :: "nat \<Rightarrow> char" where
  "digit d = ''0123456789'' ! d"

fun digits :: "nat \<Rightarrow> string" where
  "digits n = (if n < 10 then [digit n] else digits (n div 10) @ [digit (n mod 10)])"

declare digits.simps [simp del]

definition toString :: "int \<Rightarrow> string" where
  "toString n = (if n < 0 then CHR ''-'' # digits (nat (- n)) else digits (nat n))"

text \<open>\<^verbatim>\<open>s.lastIndexOf(c)\<close>: the index of the last occurrence, \<open>-1\<close> when there is none.
  \<open>lastIndexFrom\<close> scans from index \<open>i\<close> on, holding the last index seen.\<close>

fun lastIndexFrom :: "string \<Rightarrow> char \<Rightarrow> nat \<Rightarrow> int \<Rightarrow> int" where
  "lastIndexFrom [] c i seen = seen"
| "lastIndexFrom (x # xs) c i seen = lastIndexFrom xs c (Suc i) (if x = c then int i else seen)"

definition lastIndexOf :: "string \<Rightarrow> char \<Rightarrow> int" where
  "lastIndexOf s c = lastIndexFrom s c 0 (- 1)"

text \<open>\<^verbatim>\<open>s.substring(0, idx)\<close> for \<open>idx\<close> within the string.\<close>

definition substring0 :: "string \<Rightarrow> int \<Rightarrow> string" where
  "substring0 s idx = take (nat idx) s"

record 'a IPagedDataReturn =
  links_base :: string
  links_next :: "string option"
  links_prev :: "string option"
  ret_pageSize :: int
  ret_pageNumber :: int
  results :: "'a list"

text \<open>
  \<^verbatim>\<open>
  const idx = fullUrl.lastIndexOf('?');
  if (idx !== -1) { fullUrl = fullUrl.substring(0, idx); }
  let response = { pageSize, pageNumber, _links: { base: fullUrl }, results: products };
  if (pageNumber > 1) {
      response._links.prev = fullUrl + `?pageSize=${pageSize}&pageNumber=${pageNumber - 1}`;
  }
  if (products.length === pageSize) {
      response._links.next = fullUrl + `?pageSize=${pageSize}&pageNumber=${pageNumber + 1}`;
  }
  return response;
  \<close>
\<close>

definition pageLink :: "string \<Rightarrow> int \<Rightarrow> int \<Rightarrow> string" where
  "pageLink url pageSize pageNumber =
     url @ ''?pageSize='' @ toString pageSize @ ''&pageNumber='' @ toString pageNumber"

definition buildResponse :: "string \<Rightarrow> int \<Rightarrow> int \<Rightarrow> 'a list \<Rightarrow> 'a IPagedDataReturn" where
  "buildResponse fullUrl pageNumber pageSize products =
     (let idx = lastIndexOf fullUrl (CHR ''?'');
          fullUrl1 = (if idx \<noteq> - 1 then substring0 fullUrl idx else fullUrl);
          response = \<lparr>links_base = fullUrl1, links_next = None, links_prev = None,
                      ret_pageSize = pageSize, ret_pageNumber = pageNumber,
                      results = products\<rparr>;
          response1 = (if pageNumber > 1
                       then response\<lparr>links_prev := Some (pageLink fullUrl1 pageSize (pageNumber - 1))\<rparr>
                       else response);
          response2 = (if int (length products) = pageSize
                       then response1\<lparr>links_next := Some (pageLink fullUrl1 pageSize (pageNumber + 1))\<rparr>
                       else response1)
      in response2)"

text \<open>
  The request of a paged list: the parts of the URL and the two query parameters, each
  absent (or empty, which the source treats alike) or holding an integer.
\<close>

record request =
  req_protocol :: string
  req_host :: string
  req_originalUrl :: string
  query_pageSize :: "int option"
  query_pageNumber :: "int option"

text \<open>
  \<^verbatim>\<open>Model.find({}).skip(s).limit(l)\<close> on a collection: the store refuses a negative
  skip; a limit of \<open>0\<close> is no limit, a negative limit counts as its absolute value.
  (The sort key the source passes names no field of the documents, so the natural order
  stays.)
\<close>

definition skip_limit :: "int \<Rightarrow> int \<Rightarrow> 'a list \<Rightarrow> exn + 'a list" where
  "skip_limit s l xs =
     (if s < 0 then Inl MongoServerError
      else (let ys = drop (nat s) xs in Inr (if l = 0 then ys else take (nat \<bar>l\<bar>) ys)))"

definition Role_find_paged :: "int \<Rightarrow> int \<Rightarrow> store \<Rightarrow> (exn + role list) \<times> store" where
  "Role_find_paged s l st = (skip_limit s l (roles st), logged RoleFind st)"

definition ServiceModel_find_paged :: "int \<Rightarrow> int \<Rightarrow> store \<Rightarrow> (exn + service list) \<times> store" where
  "ServiceModel_find_paged s l st = (skip_limit s l (services st), logged ServiceFind st)"

definition maxPageSize :: int where
  "maxPageSize = 100"

definition fullUrl_of :: "request \<Rightarrow> string" where
  "fullUrl_of req = req_protocol req @ ''://'' @ req_host req @ req_originalUrl req"

definition payloadTooLarge :: exn where
  "payloadTooLarge =
     RouteHandlingError 413 (Text (''Payload too large. Max page size allowed is '' @ toString maxPageSize))"

definition getRoles :: "request \<Rightarrow> store \<Rightarrow> (exn + role IPagedDataReturn) \<times> store" where
  "getRoles req st =
     (let pageSize = (case query_pageSize req of Some n \<Rightarrow> n | None \<Rightarrow> 10) in
      if pageSize > maxPageSize then (Inl payloadTooLarge, st)
      else
        (let pageNumber = (case query_pageNumber req of Some n \<Rightarrow> n | None \<Rightarrow> 1) in
         case Role_find_paged ((pageNumber - 1) * pageSize) pageSize st of
           (Inl ex, st1) \<Rightarrow> (Inl ex, st1)
         | (Inr found, st1) \<Rightarrow>
             (Inr (buildResponse (fullUrl_of req) pageNumber pageSize found), st1)))"

definition getServices :: "request \<Rightarrow> store \<Rightarrow> (exn + service IPagedDataReturn) \<times> store" where
  "getServices req st =
     (let pageSize = (case query_pageSize req of Some n \<Rightarrow> n | None \<Rightarrow> 10) in
      if pageSize > maxPageSize then (Inl payloadTooLarge, st)
      else
        (let pageNumber = (case query_pageNumber req of Some n \<Rightarrow> n | None \<Rightarrow> 1) in
         case ServiceModel_find_paged ((pageNumber - 1) * pageSize) pageSize st of
           (Inl ex, st1) \<Rightarrow> (Inl ex, st1)
         | (Inr found, st1) \<Rightarrow>
             (Inr (buildResponse (fullUrl_of req) pageNumber pageSize found), st1)))"

text \<open>
  The specification's reading of the base link: the URL without its query string, that
  is, the URL up to the first \<open>?\<close> (the query of a URL starts at its first question
  mark and may itself contain further ones).
\<close>

definition spec_stripQuery :: "string \<Rightarrow> string" where
  "spec_stripQuery url = takeWhile (\<lambda>c. c \<noteq> CHR ''?'') url"

section \<open>Derived notions and sample data\<close>

text \<open>The role an identifier resolves to, if any.\<close>

definition lookupRole :: "store \<Rightarrow> ident \<Rightarrow> role option" where
  "lookupRole st r = find (\<lambda>x. role_id x = r) (roles st)"

text \<open>The service an identifier resolves to, if any.\<close>

definition lookupService :: "store \<Rightarrow> ident \<Rightarrow> service option" where
  "lookupService st i = find (\<lambda>s. srv_id s = i) (services st)"

text \<open>
  A small store: service \<open>Service A\<close> with two operations, and two roles that refer
  to them.
\<close>

definition demo_store :: store where
  "demo_store =
     \<lparr>services =
        [\<lparr>srv_id = ''65bd7c5403a909833fc9a97a'', srv_name = ''Service A'',
          operations = [\<lparr>op_id = ''65bd7c5403a909833fc9a97b'', op_name = ''op1''\<rparr>,
                        \<lparr>op_id = ''65bd7c5403a909833fc9a97c'', op_name = ''op2''\<rparr>]\<rparr>],
      roles =
        [\<lparr>role_id = ''65bd7c5403a909833fc9a97d'', role_name = ''Editors'',
          serviceOpIds = [''65bd7c5403a909833fc9a97b'', ''65bd7c5403a909833fc9a97c'']\<rparr>,
         \<lparr>role_id = ''65bd7d0203a909833fc9a986'', role_name = ''Readers'',
          serviceOpIds = [''65bd7c5403a909833fc9a97b'']\<rparr>],
      calls = []\<rparr>"

definition demo_env :: env where
  "demo_env = \<lparr>audit_enabled = False, audit_post_ok = False\<rparr>"

text \<open>A paged list request for the roles with the given \<^verbatim>\<open>pageSize\<close> parameter.\<close>

definition demo_request :: "int \<Rightarrow> request" where
  "demo_request n =
     \<lparr>req_protocol = ''http'', req_host = ''localhost:3000'',
      req_originalUrl = ''/api/v1/roles?pageSize='' @ toString n,
      query_pageSize = Some n, query_pageNumber = None\<rparr>"

text \<open>
  The document that \<^verbatim>\<open>PUT /api/v1/services/:id\<close> hands to \<^verbatim>\<open>save()\<close>: the loaded
  service with the name of the request and the operations after the two loops.
\<close>

definition updated :: "service \<Rightarrow> IServiceDto \<Rightarrow> service" where
  "updated srvc srvcData =
     srvc\<lparr>srv_name := dto_srv_name srvcData,
          operations := updateLoop (dto_operations srvcData) (operations srvc)\<rparr>"

text \<open>An incoming operation is matched when a stored operation has its identifier.\<close>

definition matched :: "operation list \<Rightarrow> IServiceOperation \<Rightarrow> bool" where
  "matched ops inc = list_ex (\<lambda>opn. id_equals (op_id opn) (dto_op_id inc)) ops"

text \<open>
  The last incoming operation that carries a given identifier, and a stored operation
  renamed after it (left as it is when there is none).
\<close>

definition lastIncoming :: "IServiceOperation list \<Rightarrow> ident \<Rightarrow> IServiceOperation option" where
  "lastIncoming incs i = find (\<lambda>inc. id_equals i (dto_op_id inc)) (rev incs)"

definition renamed :: "IServiceOperation list \<Rightarrow> operation \<Rightarrow> operation" where
  "renamed incs opn =
     (case lastIncoming incs (op_id opn) of
        None \<Rightarrow> opn
      | Some inc \<Rightarrow> opn\<lparr>op_name := dto_op_name inc\<rparr>)"

text \<open>The service of the sample store, and an update of it: one operation that matches,
  one with an unknown identifier and one without identifier.\<close>

definition demo_service :: service where
  "demo_service =
     \<lparr>srv_id = ''65bd7c5403a909833fc9a97a'', srv_name = ''Service A'',
      operations = [\<lparr>op_id = ''65bd7c5403a909833fc9a97b'', op_name = ''op1''\<rparr>,
                    \<lparr>op_id = ''65bd7c5403a909833fc9a97c'', op_name = ''op2''\<rparr>]\<rparr>"

definition demo_update :: IServiceDto where
  "demo_update =
     \<lparr>dto_srv_name = ''Service B'',
      dto_operations =
        [\<lparr>dto_op_id = Some ''65bd7c5403a909833fc9a97c'', dto_op_name = ''remove''\<rparr>,
         \<lparr>dto_op_id = Some ''65bd7c5403a909833fc9a9ff'', dto_op_name = ''unknown''\<rparr>,
         \<lparr>dto_op_id = None, dto_op_name = ''fresh''\<rparr>]\<rparr>"

section \<open>Properties of the store operations\<close>

lemma logged_fields [simp]:
  "services (logged c st) = services st"
  "roles (logged c st) = roles st"
  "calls (logged c st) = calls st @ [c]"
  by (simp_all add: logged_def)

lemma lookupRole_logged [simp]: "lookupRole (logged c st) = lookupRole st"
  by (rule ext) (simp add: lookupRole_def)

lemma sendAudit_cases:
  "sendAudit e m d = (if audit_enabled e \<and> \<not> audit_post_ok e then Inl auditRefused else Inr ())"
  by (simp add: sendAudit_def)


lemma find_replaceFirst:
  "find p xs = Some x \<Longrightarrow> p y \<Longrightarrow> find p (replaceFirst p y xs) = Some y"
  by (induction xs) (auto split: if_splits)

lemma find_Some_holds: "find p xs = Some x \<Longrightarrow> p x"
  by (induction xs) (auto split: if_splits)

lemma find_snoc:
  "find p (xs @ [y]) =
     (case find p xs of Some x \<Rightarrow> Some x | None \<Rightarrow> if p y then Some y else None)"
  by (induction xs) auto

section \<open>The Reference Validator\<close>

lemma opsLoop_iff: "opsLoop ops x f = (f \<or> (\<exists>opn \<in> set ops. op_id opn = x))"
  by (induction ops arbitrary: f) (auto simp: equals_def)

lemma srvLoop_iff: "srvLoop svcs x f = (f \<or> registered svcs x)"
  by (induction svcs arbitrary: f) (auto simp: registered_def opsLoop_iff)

lemma idsLoop_iff: "idsLoop svcs ids v = (v \<and> (\<forall>x \<in> set ids. registered svcs x))"
  by (induction ids arbitrary: v) (auto simp: srvLoop_iff)

lemma validateServiceOps_fst:
  "fst (validateServiceOps ids st) = (\<forall>x \<in> set ids. registered (services st) x)"
  by (simp add: validateServiceOps_def ServiceModel_find_def idsLoop_iff)

lemma validateServiceOps_snd: "snd (validateServiceOps ids st) = logged ServiceFind st"
  by (simp add: validateServiceOps_def ServiceModel_find_def)

text \<open>
  Claim C1. For every sequence \<open>S\<close> of operation identifiers and every state of the
  store, \<open>validateServiceOps S\<close> returns true exactly when every identifier in \<open>S\<close>
  is the identifier of an operation of a registered service. In particular the empty
  sequence is valid (whatever services exist), and a sequence with an unregistered
  identifier at any position is invalid.
\<close>

theorem validateServiceOps_iff:
  "(fst (validateServiceOps S st) = True \<longleftrightarrow> (\<forall>x \<in> set S. registered (services st) x))
   \<and> fst (validateServiceOps [] st) = True
   \<and> (\<not> registered (services st) u \<longrightarrow>
        fst (validateServiceOps (pre @ u # post) st) = False)"
  by (simp add: validateServiceOps_fst)

theorem validateServiceOps_iff_witness:
  "fst (validateServiceOps [''65bd7c5403a909833fc9a97c'', ''65bd7c5403a909833fc9a97b''] demo_store) = True
   \<and> registered (services demo_store) ''65bd7c5403a909833fc9a97c''
   \<and> registered (services demo_store) ''65bd7c5403a909833fc9a97b''
   \<and> \<not> registered (services demo_store) ''nonexistent''
   \<and> fst (validateServiceOps
             ([''65bd7c5403a909833fc9a97b''] @ ''nonexistent'' # [''65bd7c5403a909833fc9a97c''])
             demo_store) = False"
  using validateServiceOps_iff
          [of "[''65bd7c5403a909833fc9a97c'', ''65bd7c5403a909833fc9a97b'']" demo_store
              "''nonexistent''" "[''65bd7c5403a909833fc9a97b'']" "[''65bd7c5403a909833fc9a97c'']"]
  by (simp add: demo_store_def registered_def)

section \<open>The Role Expander\<close>

lemma expandLoop_resolved:
  "\<forall>r \<in> set rs. lookupRole st r \<noteq> None \<Longrightarrow>
   fst (expandLoop rs acc st) =
     Inr (acc @ concat (map (\<lambda>r. serviceOpIds (the (lookupRole st r))) rs))"
proof (induction rs arbitrary: acc st)
  case Nil
  then show ?case by simp
next
  case (Cons r rs)
  from Cons.prems obtain ro where ro: "find (\<lambda>x. role_id x = r) (roles st) = Some ro"
    by (auto simp: lookupRole_def)
  from Cons.prems have "\<forall>q \<in> set rs. lookupRole (logged (RoleFindById r) st) q \<noteq> None"
    by simp
  from Cons.IH [OF this] show ?case
    using ro by (simp add: Role_findById_def lookupRole_def)
qed

lemma expandLoop_missing:
  "r \<in> set rs \<Longrightarrow> lookupRole st r = None \<Longrightarrow> fst (expandLoop rs acc st) = Inl TypeError"
proof (induction rs arbitrary: acc st)
  case Nil
  then show ?case by simp
next
  case (Cons q rs)
  show ?case
  proof (cases "find (\<lambda>x. role_id x = q) (roles st)")
    case None
    then show ?thesis by (simp add: Role_findById_def)
  next
    case (Some ro)
    with Cons.prems have "r \<in> set rs" by (auto simp: lookupRole_def)
    from Cons.IH [OF this, of "logged (RoleFindById q) st"] Cons.prems(2) Some
    show ?thesis by (simp add: Role_findById_def)
  qed
qed

lemma expandLoop_cong:
  "roles st = roles st' \<Longrightarrow> fst (expandLoop rs acc st) = fst (expandLoop rs acc st')"
proof (induction rs arbitrary: acc st st')
  case Nil
  then show ?case by simp
next
  case (Cons r rs)
  have "roles (logged (RoleFindById r) st) = roles (logged (RoleFindById r) st')"
    using Cons.prems by simp
  from Cons.IH [OF this] show ?case
    using Cons.prems by (simp add: Role_findById_def split: option.splits)
qed

lemma expandLoop_store:
  "roles (snd (expandLoop rs acc st)) = roles st \<and>
   services (snd (expandLoop rs acc st)) = services st"
  by (induction rs arbitrary: acc st) (auto simp: Role_findById_def split: option.splits)

lemma rolexpand_post_fst:
  "fst (rolexpand_post rs st) =
     (case fst (expandLoop rs [] st) of Inl ex \<Rightarrow> Inl ex | Inr ids \<Rightarrow> Inr (201, Json ids))"
  by (simp add: rolexpand_post_def split: prod.splits sum.splits)

lemma rolexpand_post_store:
  "roles (snd (rolexpand_post rs st)) = roles st \<and>
   services (snd (rolexpand_post rs st)) = services st"
  using expandLoop_store [of rs "[]" st]
  by (auto simp: rolexpand_post_def split: prod.splits sum.splits)

lemma rolexpand_post_cong:
  "roles st = roles st' \<Longrightarrow> fst (rolexpand_post rs st) = fst (rolexpand_post rs st')"
  by (simp add: rolexpand_post_fst expandLoop_cong [of st st'])

text \<open>
  Claim C2. When every identifier of the input resolves to a stored role, the expansion
  answers with exactly the concatenation of the roles' \<^verbatim>\<open>serviceOpIds\<close> lists, in the
  order of the input, each list in its own order and with its duplicates; the empty
  input gives the empty sequence. The stored roles are left as they were.
\<close>

theorem rolexpand_concat:
  assumes "\<forall>r \<in> set roleIds. lookupRole st r \<noteq> None"
  shows "fst (rolexpand_post roleIds st) =
           Inr (201, Json (concat (map (\<lambda>r. serviceOpIds (the (lookupRole st r))) roleIds)))
         \<and> fst (rolexpand_post [] st) = Inr (201, Json [])
         \<and> roles (snd (rolexpand_post roleIds st)) = roles st"
  using assms by (simp add: rolexpand_post_fst expandLoop_resolved rolexpand_post_store)

theorem rolexpand_concat_witness:
  "lookupRole demo_store ''65bd7c5403a909833fc9a97d'' \<noteq> None
   \<and> lookupRole demo_store ''65bd7d0203a909833fc9a986'' \<noteq> None
   \<and> fst (rolexpand_post
            [''65bd7c5403a909833fc9a97d'', ''65bd7d0203a909833fc9a986'', ''65bd7c5403a909833fc9a97d'']
            demo_store) =
       Inr (201, Json [''65bd7c5403a909833fc9a97b'', ''65bd7c5403a909833fc9a97c'',
                       ''65bd7c5403a909833fc9a97b'',
                       ''65bd7c5403a909833fc9a97b'', ''65bd7c5403a909833fc9a97c''])"
  using rolexpand_concat
          [of "[''65bd7c5403a909833fc9a97d'', ''65bd7d0203a909833fc9a986'', ''65bd7c5403a909833fc9a97d'']"
              demo_store]
  by (simp add: demo_store_def lookupRole_def)

lemma rolexpand_missing:
  "r \<in> set roleIds \<Longrightarrow> lookupRole st r = None \<Longrightarrow>
   fst (rolexpand_post roleIds st) = Inl TypeError"
  by (simp add: rolexpand_post_fst expandLoop_missing)

text \<open>
  Claim C3. With an identifier that resolves to no role, the expansion stops there and
  sends no result: what is thrown is the runtime's \<^verbatim>\<open>TypeError\<close> (the handler reads
  \<^verbatim>\<open>role.serviceOpIds\<close> of \<^verbatim>\<open>null\<close>), not a not-found \<^verbatim>\<open>RouteHandlingError\<close> as
  \<^verbatim>\<open>GET /api/v1/roles/:id\<close> throws for the same identifier.
\<close>

theorem rolexpand_missing_role_TypeError:
  "fst (rolexpand_post [''65bd7c5403a909833fc9a97d'', ''65bd7c5403a909833fc9a900''] demo_store)
     = Inl TypeError
   \<and> fst (roles_get ''65bd7c5403a909833fc9a900'' demo_store)
     = Inl (RouteHandlingError 400
              (Text ''Role with ID 65bd7c5403a909833fc9a900 could not be found.''))"
  by (simp add: rolexpand_post_def Role_findById_def roles_get_def demo_store_def logged_def)

section \<open>Deleting a service\<close>

lemma deleteFirst_filter:
  "distinct (map f xs) \<Longrightarrow> deleteFirst (\<lambda>x. f x = i) xs = filter (\<lambda>x. f x \<noteq> i) xs"
proof (induction xs)
  case Nil
  then show ?case by simp
next
  case (Cons x xs)
  show ?case
  proof (cases "f x = i")
    case True
    from Cons.prems have "f x \<notin> f ` set xs" by simp
    with True have "\<forall>y \<in> set xs. f y \<noteq> i" by (metis imageI)
    then have "filter (\<lambda>x. f x \<noteq> i) xs = xs" by (simp add: filter_id_conv)
    with True show ?thesis by simp
  next
    case False
    with Cons show ?thesis by simp
  qed
qed

lemma services_delete_store:
  "roles (snd (services_delete e sid st)) = roles st \<and>
   services (snd (services_delete e sid st)) = deleteFirst (\<lambda>s. srv_id s = sid) (services st)"
  by (simp add: services_delete_def ServiceModel_deleteOne_def Let_def split: sum.splits)

text \<open>
  Claim C4. Deleting a service leaves every role as it was and removes that service
  (with its nested operations) only; an expansion after the deletion answers as before,
  so a role that refers to operations of the deleted service still expands to them.
\<close>

theorem services_delete_no_cascade:
  "roles (snd (services_delete e serviceId st)) = roles st
   \<and> (distinct (map srv_id (services st)) \<longrightarrow>
        services (snd (services_delete e serviceId st)) =
          filter (\<lambda>s. srv_id s \<noteq> serviceId) (services st))
   \<and> fst (rolexpand_post roleIds (snd (services_delete e serviceId st))) =
       fst (rolexpand_post roleIds st)
   \<and> (lookupRole st r = Some ro \<longrightarrow>
        fst (rolexpand_post [r] (snd (services_delete e serviceId st))) =
          Inr (201, Json (serviceOpIds ro)))"
proof -
  let ?st' = "snd (services_delete e serviceId st)"
  have r: "roles ?st' = roles st" by (simp add: services_delete_store)
  have same: "fst (rolexpand_post q ?st') = fst (rolexpand_post q st)" for q
    by (rule rolexpand_post_cong) (rule r)
  have one: "fst (rolexpand_post [r] st) = Inr (201, Json (serviceOpIds ro))"
    if "lookupRole st r = Some ro"
    using that by (simp add: rolexpand_post_def Role_findById_def lookupRole_def)
  show ?thesis
    using r same one by (simp add: services_delete_store deleteFirst_filter)
qed

theorem services_delete_no_cascade_witness:
  "distinct (map srv_id (services demo_store))
   \<and> lookupRole demo_store ''65bd7c5403a909833fc9a97d'' =
       Some \<lparr>role_id = ''65bd7c5403a909833fc9a97d'', role_name = ''Editors'',
             serviceOpIds = [''65bd7c5403a909833fc9a97b'', ''65bd7c5403a909833fc9a97c'']\<rparr>
   \<and> services (snd (services_delete demo_env ''65bd7c5403a909833fc9a97a'' demo_store)) = []
   \<and> fst (rolexpand_post [''65bd7c5403a909833fc9a97d'']
            (snd (services_delete demo_env ''65bd7c5403a909833fc9a97a'' demo_store))) =
       Inr (201, Json [''65bd7c5403a909833fc9a97b'', ''65bd7c5403a909833fc9a97c''])
   \<and> fst (validateServiceOps [''65bd7c5403a909833fc9a97b'']
            (snd (services_delete demo_env ''65bd7c5403a909833fc9a97a'' demo_store))) = False"
  using services_delete_no_cascade
          [of demo_env "''65bd7c5403a909833fc9a97a''" demo_store "[]"
              "''65bd7c5403a909833fc9a97d''"
              "\<lparr>role_id = ''65bd7c5403a909833fc9a97d'', role_name = ''Editors'',
                serviceOpIds = [''65bd7c5403a909833fc9a97b'', ''65bd7c5403a909833fc9a97c'']\<rparr>"]
  by (simp add: demo_store_def lookupRole_def validateServiceOps_fst registered_def)

section \<open>Creating a role\<close>

lemma roles_post_name_bounds:
  assumes "length (dto_role_name newRole) < 4 \<or> length (dto_role_name newRole) > 40"
  shows "\<exists>detail. validateRole newRole = Some detail
           \<and> roles_post e newId newRole st = (Inl (Error (JoiMessage detail)), st)"
  using assms
  by (auto simp: roles_post_def validateRole_def ROLENAME_MIN_LENGTH_def ROLENAME_MAX_LENGTH_def)

text \<open>
  Claim C5, at a creation request with the three-character name \<open>Bad\<close> and a valid
  operation identifier: the name is checked first, the store is not called and no role
  is saved, but what is thrown is a plain \<^verbatim>\<open>Error\<close> carrying the message of
  \<^verbatim>\<open>validateRole\<close>: it has no HTTP status and reaches \<^verbatim>\<open>RouteErrorFormatter\<close> like any
  unexpected exception, not as a validation failure with status 400. The update of a
  role throws \<^verbatim>\<open>RouteHandlingError(400, ...)\<close> when its validation fails.
\<close>

theorem roles_post_short_name_plain_Error:
  "validateRole \<lparr>dto_role_name = ''Bad'', dto_serviceOpIds = [''65bd7c5403a909833fc9a97b'']\<rparr>
     = Some (string_min 4)
   \<and> fst (validateServiceOps [''65bd7c5403a909833fc9a97b''] demo_store) = True
   \<and> roles_post demo_env ''65bd7c5403a909833fc9a999''
        \<lparr>dto_role_name = ''Bad'', dto_serviceOpIds = [''65bd7c5403a909833fc9a97b'']\<rparr> demo_store
      = (Inl (Error (JoiMessage (string_min 4))), demo_store)
   \<and> fst (roles_put demo_env ''65bd7c5403a909833fc9a97d''
            \<lparr>dto_role_name = ''Editors'', dto_serviceOpIds = [''65bd7c5403a909833fc9a9ff'']\<rparr>
            demo_store)
      = Inl (RouteHandlingError 400 (Text ''Service Operation ID validation failed''))"
  by (simp add: roles_post_def roles_put_def validateRole_def ROLENAME_MIN_LENGTH_def
        validateServiceOps_def ServiceModel_find_def equals_def demo_store_def)

section \<open>Paged lists\<close>

lemma toString_maxPageSize: "toString maxPageSize = ''100''"
  by (simp add: toString_def maxPageSize_def digits.simps digit_def)

lemma payloadTooLarge_eq:
  "payloadTooLarge = RouteHandlingError 413 (Text ''Payload too large. Max page size allowed is 100'')"
  by (simp add: payloadTooLarge_def toString_maxPageSize)

lemma getRoles_rejects:
  "query_pageSize req = Some n \<Longrightarrow> n > 100 \<Longrightarrow> getRoles req st = (Inl payloadTooLarge, st)"
  by (simp add: getRoles_def maxPageSize_def)

lemma getServices_rejects:
  "query_pageSize req = Some n \<Longrightarrow> n > 100 \<Longrightarrow> getServices req st = (Inl payloadTooLarge, st)"
  by (simp add: getServices_def maxPageSize_def)

lemma getRoles_accepts:
  "query_pageSize req = Some n \<Longrightarrow> n \<le> 100 \<Longrightarrow>
   calls (snd (getRoles req st)) = calls st @ [RoleFind] \<and>
   fst (getRoles req st) \<noteq> Inl (RouteHandlingError 413 m)"
  by (auto simp: getRoles_def maxPageSize_def Role_find_paged_def skip_limit_def Let_def
           split: prod.splits sum.splits option.splits)

lemma getServices_accepts:
  "query_pageSize req = Some n \<Longrightarrow> n \<le> 100 \<Longrightarrow>
   calls (snd (getServices req st)) = calls st @ [ServiceFind] \<and>
   fst (getServices req st) \<noteq> Inl (RouteHandlingError 413 m)"
  by (auto simp: getServices_def maxPageSize_def ServiceModel_find_paged_def skip_limit_def Let_def
           split: prod.splits sum.splits option.splits)

text \<open>
  Claim C7. A paged list request with a page size above 100 fails with the 413
  \<^verbatim>\<open>RouteHandlingError\<close> and the store is not called; a page size of exactly 100
  passes this check and the store is queried.
\<close>

theorem pageSize_above_max_rejected:
  "(query_pageSize req = Some n \<and> n > 100 \<longrightarrow>
      getRoles req st =
        (Inl (RouteHandlingError 413 (Text ''Payload too large. Max page size allowed is 100'')), st)
      \<and> getServices req st =
        (Inl (RouteHandlingError 413 (Text ''Payload too large. Max page size allowed is 100'')), st))
   \<and> (query_pageSize req = Some 100 \<longrightarrow>
        (\<forall>m. fst (getRoles req st) \<noteq> Inl (RouteHandlingError 413 m))
        \<and> (\<forall>m. fst (getServices req st) \<noteq> Inl (RouteHandlingError 413 m))
        \<and> calls (snd (getRoles req st)) = calls st @ [RoleFind]
        \<and> calls (snd (getServices req st)) = calls st @ [ServiceFind])"
  using getRoles_rejects [of req n st] getServices_rejects [of req n st]
        getRoles_accepts [of req 100 st] getServices_accepts [of req 100 st]
  by (simp add: payloadTooLarge_eq)

theorem pageSize_above_max_rejected_witness:
  "query_pageSize (demo_request 101) = Some 101 \<and> (101 :: int) > 100
   \<and> getRoles (demo_request 101) demo_store =
       (Inl (RouteHandlingError 413 (Text ''Payload too large. Max page size allowed is 100'')),
        demo_store)
   \<and> query_pageSize (demo_request 100) = Some 100
   \<and> calls (snd (getRoles (demo_request 100) demo_store)) = [RoleFind]
   \<and> calls (snd (getServices (demo_request 100) demo_store)) = [ServiceFind]"
  using pageSize_above_max_rejected [of "demo_request 101" 101 demo_store]
        pageSize_above_max_rejected [of "demo_request 100" 0 demo_store]
  by (simp add: demo_request_def demo_store_def)

section \<open>Updating a service\<close>

lemma renameLoop_ids: "map op_id (renameLoop inc ops) = map op_id ops"
  by (induction ops) auto

lemma updateLoop_ids: "map op_id (updateLoop incs ops) = map op_id ops"
  by (induction incs arbitrary: ops) (auto simp: renameLoop_ids)

lemma renameLoop_unmatched: "\<not> matched ops inc \<Longrightarrow> renameLoop inc ops = ops"
  by (induction ops) (auto simp: matched_def)

lemma matched_ids: "map op_id ops = map op_id ops' \<Longrightarrow> matched ops inc = matched ops' inc"
proof -
  assume a: "map op_id ops = map op_id ops'"
  have "matched xs inc = list_ex (\<lambda>i. id_equals i (dto_op_id inc)) (map op_id xs)" for xs
    by (simp add: matched_def list_ex_iff)
  with a show ?thesis by simp
qed

lemma updateLoop_filter: "updateLoop (filter (matched ops) incs) ops = updateLoop incs ops"
proof (induction incs arbitrary: ops)
  case Nil
  then show ?case by simp
next
  case (Cons inc incs)
  have m: "matched (renameLoop inc ops) = matched ops"
    by (rule ext) (rule matched_ids, rule renameLoop_ids)
  show ?case
  proof (cases "matched ops inc")
    case True
    then show ?thesis using Cons.IH [of "renameLoop inc ops"] by (simp add: m)
  next
    case False
    then show ?thesis using Cons.IH [of ops] by (simp add: renameLoop_unmatched)
  qed
qed

lemma renameLoop_first:
  "matched ops inc \<Longrightarrow>
   \<exists>pre opn post. ops = pre @ opn # post
      \<and> id_equals (op_id opn) (dto_op_id inc)
      \<and> (\<forall>p \<in> set pre. \<not> id_equals (op_id p) (dto_op_id inc))
      \<and> renameLoop inc ops = pre @ opn\<lparr>op_name := dto_op_name inc\<rparr> # post"
proof (induction ops)
  case Nil
  then show ?case by (simp add: matched_def)
next
  case (Cons a ops)
  show ?case
  proof (cases "id_equals (op_id a) (dto_op_id inc)")
    case True
    then have "a # ops = [] @ a # ops \<and> id_equals (op_id a) (dto_op_id inc)
        \<and> (\<forall>p \<in> set []. \<not> id_equals (op_id p) (dto_op_id inc))
        \<and> renameLoop inc (a # ops) = [] @ a\<lparr>op_name := dto_op_name inc\<rparr> # ops"
      by simp
    then show ?thesis by blast
  next
    case False
    with Cons.prems have "matched ops inc" by (simp add: matched_def)
    from Cons.IH [OF this] obtain pre opn post where
      h: "ops = pre @ opn # post" "id_equals (op_id opn) (dto_op_id inc)"
         "\<forall>p \<in> set pre. \<not> id_equals (op_id p) (dto_op_id inc)"
         "renameLoop inc ops = pre @ opn\<lparr>op_name := dto_op_name inc\<rparr> # post"
      by blast
    with False have "a # ops = (a # pre) @ opn # post \<and> id_equals (op_id opn) (dto_op_id inc)
        \<and> (\<forall>p \<in> set (a # pre). \<not> id_equals (op_id p) (dto_op_id inc))
        \<and> renameLoop inc (a # ops) = (a # pre) @ opn\<lparr>op_name := dto_op_name inc\<rparr> # post"
      by simp
    then show ?thesis by blast
  qed
qed

lemma renameLoop_names:
  "j < length ops \<Longrightarrow>
   op_name (renameLoop inc ops ! j) = op_name (ops ! j)
   \<or> (dto_op_id inc = Some (op_id (ops ! j)) \<and> op_name (renameLoop inc ops ! j) = dto_op_name inc)"
proof (induction ops arbitrary: j)
  case Nil
  then show ?case by simp
next
  case (Cons a ops)
  then show ?case
    by (cases j) (auto simp: id_equals_def split: option.splits)
qed

lemma updateLoop_names:
  "j < length ops \<Longrightarrow>
   op_name (updateLoop incs ops ! j) = op_name (ops ! j)
   \<or> (\<exists>inc \<in> set incs. dto_op_id inc = Some (op_id (ops ! j))
         \<and> op_name (updateLoop incs ops ! j) = dto_op_name inc)"
proof (induction incs arbitrary: ops)
  case Nil
  then show ?case by simp
next
  case (Cons inc incs)
  have len: "length (renameLoop inc ops) = length ops"
    using renameLoop_ids [of inc ops] by (metis length_map)
  have idj: "op_id (renameLoop inc ops ! j) = op_id (ops ! j)"
    using renameLoop_ids [of inc ops] Cons.prems len by (metis nth_map)
  from Cons.prems len have "j < length (renameLoop inc ops)" by simp
  from Cons.IH [OF this] renameLoop_names [OF Cons.prems, of inc]
  show ?case by (auto simp: idj)
qed

lemma renameLoop_distinct:
  "distinct (map op_id ops) \<Longrightarrow>
   renameLoop inc ops =
     map (\<lambda>opn. if id_equals (op_id opn) (dto_op_id inc)
                then opn\<lparr>op_name := dto_op_name inc\<rparr> else opn) ops"
proof (induction ops)
  case Nil
  then show ?case by simp
next
  case (Cons a ops)
  show ?case
  proof (cases "id_equals (op_id a) (dto_op_id inc)")
    case True
    then have i: "dto_op_id inc = Some (op_id a)"
      by (simp add: id_equals_def split: option.splits)
    from Cons.prems have "op_id a \<notin> op_id ` set ops" by simp
    then have "\<forall>q \<in> set ops. op_id q \<noteq> op_id a" by (metis imageI)
    then have "\<forall>q \<in> set ops. \<not> id_equals (op_id q) (dto_op_id inc)"
      by (simp add: i id_equals_def)
    then have "map (\<lambda>opn. if id_equals (op_id opn) (dto_op_id inc)
                then opn\<lparr>op_name := dto_op_name inc\<rparr> else opn) ops = ops"
      by (simp add: map_idI)
    with True show ?thesis by simp
  next
    case False
    with Cons show ?thesis by simp
  qed
qed

lemma lastIncoming_Cons:
  "lastIncoming (inc # incs) i =
     (case lastIncoming incs i of
        Some x \<Rightarrow> Some x
      | None \<Rightarrow> if id_equals i (dto_op_id inc) then Some inc else None)"
  by (simp add: lastIncoming_def find_snoc)

lemma updateLoop_distinct:
  "distinct (map op_id ops) \<Longrightarrow> updateLoop incs ops = map (renamed incs) ops"
proof (induction incs arbitrary: ops)
  case Nil
  then show ?case by (simp add: renamed_def lastIncoming_def map_idI)
next
  case (Cons inc incs)
  let ?f = "\<lambda>opn. if id_equals (op_id opn) (dto_op_id inc)
                then opn\<lparr>op_name := dto_op_name inc\<rparr> else opn"
  have d: "distinct (map op_id (renameLoop inc ops))"
    using Cons.prems by (simp add: renameLoop_ids)
  have "updateLoop (inc # incs) ops = map (renamed incs) (renameLoop inc ops)"
    using Cons.IH [OF d] by simp
  also have "\<dots> = map (renamed incs \<circ> ?f) ops"
    by (simp add: renameLoop_distinct [OF Cons.prems])
  also have "\<dots> = map (renamed (inc # incs)) ops"
    by (rule map_cong) (auto simp: renamed_def lastIncoming_Cons split: option.splits)
  finally show ?case .
qed

lemma services_put_found:
  assumes "lookupService st serviceId = Some srvc"
  shows "services_put e serviceId srvcData st =
           (if service_valid (updated srvc srvcData)
            then ((if audit_enabled e \<and> \<not> audit_post_ok e then Inl auditRefused
                   else Inr (201, Json (updated srvc srvcData))),
                  logged (ServiceSave serviceId)
                    ((logged (ServiceFindById serviceId) st)
                       \<lparr>services := replaceFirst (\<lambda>t. srv_id t = serviceId)
                                      (updated srvc srvcData) (services st)\<rparr>))
            else (Inl MongooseValidationError, logged (ServiceFindById serviceId) st))"
proof -
  from assms have f: "find (\<lambda>s. srv_id s = serviceId) (services st) = Some srvc"
    by (simp add: lookupService_def)
  have sid: "srv_id srvc = serviceId"
    using find_Some_holds [OF f] .
  show ?thesis
    using f sid
    by (simp add: services_put_def ServiceModel_findById_def ServiceModel_save_def
          updated_def Let_def sendAudit_cases)
qed

text \<open>
  Claim C8, as stated, at an update with an empty name: \<^verbatim>\<open>save()\<close> refuses the
  document (the schema requires the name), nothing is written and the stored service
  keeps its name.
\<close>

theorem services_put_empty_name_not_stored:
  "lookupService demo_store ''65bd7c5403a909833fc9a97a'' = Some demo_service
   \<and> fst (services_put demo_env ''65bd7c5403a909833fc9a97a''
            \<lparr>dto_srv_name = [], dto_operations = []\<rparr> demo_store) = Inl MongooseValidationError
   \<and> lookupService
         (snd (services_put demo_env ''65bd7c5403a909833fc9a97a''
                 \<lparr>dto_srv_name = [], dto_operations = []\<rparr> demo_store))
         ''65bd7c5403a909833fc9a97a'' = Some demo_service
   \<and> srv_name demo_service \<noteq> []"
  by (simp add: lookupService_def services_put_def ServiceModel_findById_def
        ServiceModel_save_def service_valid_def demo_store_def demo_service_def)

text \<open>
  Claim C8, amended. For an update of an existing service: when the updated document
  passes the schema's required-name validation (the given name and every operation name
  after the renaming are not empty), it replaces the stored service and nothing else
  changes; otherwise \<^verbatim>\<open>save()\<close> throws and the store is left as it was. The updated
  document carries the given name and the stored operations with the same identifiers
  in the same order (nothing inserted, nothing removed); a name changes only to the name
  of an incoming operation with that identifier; incoming operations that match no
  stored identifier have no effect; and when the stored identifiers are distinct, each
  operation is renamed after the last incoming operation with its identifier.
\<close>

theorem services_put_rename_in_place:
  assumes "lookupService st serviceId = Some srvc"
  shows "(service_valid (updated srvc srvcData) \<longrightarrow>
            lookupService (snd (services_put e serviceId srvcData st)) serviceId =
              Some (updated srvc srvcData)
            \<and> services (snd (services_put e serviceId srvcData st)) =
                replaceFirst (\<lambda>t. srv_id t = serviceId) (updated srvc srvcData) (services st)
            \<and> roles (snd (services_put e serviceId srvcData st)) = roles st)
         \<and> (\<not> service_valid (updated srvc srvcData) \<longrightarrow>
              services_put e serviceId srvcData st =
                (Inl MongooseValidationError, logged (ServiceFindById serviceId) st))
         \<and> srv_name (updated srvc srvcData) = dto_srv_name srvcData
         \<and> srv_id (updated srvc srvcData) = srv_id srvc
         \<and> map op_id (operations (updated srvc srvcData)) = map op_id (operations srvc)
         \<and> (\<forall>j < length (operations srvc).
               op_name (operations (updated srvc srvcData) ! j) = op_name (operations srvc ! j)
               \<or> (\<exists>inc \<in> set (dto_operations srvcData).
                     dto_op_id inc = Some (op_id (operations srvc ! j))
                     \<and> op_name (operations (updated srvc srvcData) ! j) = dto_op_name inc))
         \<and> operations (updated srvc srvcData) =
               updateLoop (filter (matched (operations srvc)) (dto_operations srvcData))
                 (operations srvc)
         \<and> (distinct (map op_id (operations srvc)) \<longrightarrow>
               operations (updated srvc srvcData) =
                 map (renamed (dto_operations srvcData)) (operations srvc))"
proof -
  from assms have f: "find (\<lambda>s. srv_id s = serviceId) (services st) = Some srvc"
    by (simp add: lookupService_def)
  have sid: "srv_id (updated srvc srvcData) = serviceId"
    using find_Some_holds [OF f] by (simp add: updated_def)
  have a: "service_valid (updated srvc srvcData) \<longrightarrow>
            lookupService (snd (services_put e serviceId srvcData st)) serviceId =
              Some (updated srvc srvcData)
            \<and> services (snd (services_put e serviceId srvcData st)) =
                replaceFirst (\<lambda>t. srv_id t = serviceId) (updated srvc srvcData) (services st)
            \<and> roles (snd (services_put e serviceId srvcData st)) = roles st"
    using find_replaceFirst [OF f, of "updated srvc srvcData"] sid
    by (simp add: services_put_found [OF assms] lookupService_def)
  have b: "\<not> service_valid (updated srvc srvcData) \<longrightarrow>
              services_put e serviceId srvcData st =
                (Inl MongooseValidationError, logged (ServiceFindById serviceId) st)"
    by (simp add: services_put_found [OF assms])
  have c: "\<forall>j < length (operations srvc).
               op_name (operations (updated srvc srvcData) ! j) = op_name (operations srvc ! j)
               \<or> (\<exists>inc \<in> set (dto_operations srvcData).
                     dto_op_id inc = Some (op_id (operations srvc ! j))
                     \<and> op_name (operations (updated srvc srvcData) ! j) = dto_op_name inc)"
    using updateLoop_names [of _ "operations srvc" "dto_operations srvcData"]
    by (simp add: updated_def)
  have d: "operations (updated srvc srvcData) =
               updateLoop (filter (matched (operations srvc)) (dto_operations srvcData))
                 (operations srvc)"
    by (simp add: updated_def updateLoop_filter)
  have e: "distinct (map op_id (operations srvc)) \<longrightarrow>
               operations (updated srvc srvcData) =
                 map (renamed (dto_operations srvcData)) (operations srvc)"
    by (simp add: updated_def updateLoop_distinct)
  have g: "srv_name (updated srvc srvcData) = dto_srv_name srvcData
         \<and> srv_id (updated srvc srvcData) = srv_id srvc
         \<and> map op_id (operations (updated srvc srvcData)) = map op_id (operations srvc)"
    by (simp add: updated_def updateLoop_ids)
  from a b c d e g show ?thesis by blast
qed

theorem services_put_rename_in_place_witness:
  "lookupService demo_store ''65bd7c5403a909833fc9a97a'' = Some demo_service
   \<and> service_valid (updated demo_service demo_update)
   \<and> distinct (map op_id (operations demo_service))
   \<and> lookupService (snd (services_put demo_env ''65bd7c5403a909833fc9a97a'' demo_update demo_store))
         ''65bd7c5403a909833fc9a97a'' =
       Some \<lparr>srv_id = ''65bd7c5403a909833fc9a97a'', srv_name = ''Service B'',
             operations = [\<lparr>op_id = ''65bd7c5403a909833fc9a97b'', op_name = ''op1''\<rparr>,
                           \<lparr>op_id = ''65bd7c5403a909833fc9a97c'', op_name = ''remove''\<rparr>]\<rparr>
   \<and> \<not> service_valid (updated demo_service \<lparr>dto_srv_name = [], dto_operations = []\<rparr>)
   \<and> services_put demo_env ''65bd7c5403a909833fc9a97a''
         \<lparr>dto_srv_name = [], dto_operations = []\<rparr> demo_store =
       (Inl MongooseValidationError, logged (ServiceFindById ''65bd7c5403a909833fc9a97a'') demo_store)"
proof -
  have l: "lookupService demo_store ''65bd7c5403a909833fc9a97a'' = Some demo_service"
    by (simp add: lookupService_def demo_store_def demo_service_def)
  have u: "updated demo_service demo_update =
             \<lparr>srv_id = ''65bd7c5403a909833fc9a97a'', srv_name = ''Service B'',
              operations = [\<lparr>op_id = ''65bd7c5403a909833fc9a97b'', op_name = ''op1''\<rparr>,
                            \<lparr>op_id = ''65bd7c5403a909833fc9a97c'', op_name = ''remove''\<rparr>]\<rparr>"
    by (simp add: updated_def demo_service_def demo_update_def id_equals_def)
  have v: "service_valid (updated demo_service demo_update)"
    unfolding u by (simp add: service_valid_def)
  have nv: "\<not> service_valid (updated demo_service \<lparr>dto_srv_name = [], dto_operations = []\<rparr>)"
    by (simp add: service_valid_def updated_def)
  have d: "distinct (map op_id (operations demo_service))"
    by (simp add: demo_service_def)
  from services_put_rename_in_place [OF l, of demo_update demo_env] v
  have a: "lookupService
             (snd (services_put demo_env ''65bd7c5403a909833fc9a97a'' demo_update demo_store))
             ''65bd7c5403a909833fc9a97a'' = Some (updated demo_service demo_update)"
    by blast
  from services_put_rename_in_place
         [OF l, of "\<lparr>dto_srv_name = [], dto_operations = []\<rparr>" demo_env] nv
  have b: "services_put demo_env ''65bd7c5403a909833fc9a97a''
             \<lparr>dto_srv_name = [], dto_operations = []\<rparr> demo_store =
           (Inl MongooseValidationError,
            logged (ServiceFindById ''65bd7c5403a909833fc9a97a'') demo_store)"
    by blast
  from l v nv d a b show ?thesis by (simp add: u)
qed

section \<open>Updating and deleting a role\<close>



lemma roles_delete_malformed:
  "\<not> wellFormed roleId \<Longrightarrow> roles_delete e roleId st = (Inl CastError, st)"
  by (simp add: roles_delete_def Role_deleteOne_def)



text \<open>
  Claim C10. An update of an existing role whose operation identifiers are all
  registered is applied whatever the length of the requested name: the stored role
  gets the requested name and identifiers, the other roles stay, and the answer is
  \<^verbatim>\<open>200\<close> with the updated role (or the audit sink's 424, after the update was
  written). \<^verbatim>\<open>validateRole\<close> is not called.
\<close>

theorem roles_put_no_name_check:
  assumes "lookupRole st roleId = Some r"
      and "\<forall>x \<in> set (dto_serviceOpIds newRole). registered (services st) x"
  shows "lookupRole (snd (roles_put e roleId newRole st)) roleId =
           Some (r\<lparr>role_name := dto_role_name newRole, serviceOpIds := dto_serviceOpIds newRole\<rparr>)
         \<and> roles (snd (roles_put e roleId newRole st)) =
             replaceFirst (\<lambda>t. role_id t = roleId)
               (r\<lparr>role_name := dto_role_name newRole, serviceOpIds := dto_serviceOpIds newRole\<rparr>)
               (roles st)
         \<and> fst (roles_put e roleId newRole st) =
             (if audit_enabled e \<and> \<not> audit_post_ok e then Inl auditRefused
              else Inr (200, Json (Some (r\<lparr>role_name := dto_role_name newRole,
                                            serviceOpIds := dto_serviceOpIds newRole\<rparr>))))"
proof -
  let ?r' = "r\<lparr>role_name := dto_role_name newRole, serviceOpIds := dto_serviceOpIds newRole\<rparr>"
  from assms(1) have f: "find (\<lambda>x. role_id x = roleId) (roles st) = Some r"
    by (simp add: lookupRole_def)
  then have rid: "role_id ?r' = roleId"
    using find_Some_holds [OF f] by simp
  have ok: "fst (validateServiceOps (dto_serviceOpIds newRole) st) = True"
    using assms(2) by (simp add: validateServiceOps_fst)
  have st1: "snd (validateServiceOps (dto_serviceOpIds newRole) st) = logged ServiceFind st"
    by (rule validateServiceOps_snd)
  obtain b s1 where v: "validateServiceOps (dto_serviceOpIds newRole) st = (b, s1)"
    by (cases "validateServiceOps (dto_serviceOpIds newRole) st")
  with ok st1 have b: "b = True" and s1: "s1 = logged ServiceFind st" by simp_all
  have res: "roles (snd (roles_put e roleId newRole st)) =
               replaceFirst (\<lambda>t. role_id t = roleId) ?r' (roles st)"
    using f by (simp add: roles_put_def v b s1 Role_findOneAndUpdate_def Let_def split: sum.splits)
  have resp: "fst (roles_put e roleId newRole st) =
             (if audit_enabled e \<and> \<not> audit_post_ok e then Inl auditRefused
              else Inr (200, Json (Some ?r')))"
    using f by (simp add: roles_put_def v b s1 Role_findOneAndUpdate_def Let_def sendAudit_cases)
  have "lookupRole (snd (roles_put e roleId newRole st)) roleId = Some ?r'"
    unfolding lookupRole_def res using find_replaceFirst [OF f, of ?r'] rid by simp
  with res resp show ?thesis by simp
qed

theorem roles_put_no_name_check_witness:
  "lookupRole demo_store ''65bd7d0203a909833fc9a986'' =
     Some \<lparr>role_id = ''65bd7d0203a909833fc9a986'', role_name = ''Readers'',
           serviceOpIds = [''65bd7c5403a909833fc9a97b'']\<rparr>
   \<and> registered (services demo_store) ''65bd7c5403a909833fc9a97c''
   \<and> validateRole \<lparr>dto_role_name = ''R'', dto_serviceOpIds = [''65bd7c5403a909833fc9a97c'']\<rparr>
       = Some (string_min 4)
   \<and> lookupRole (snd (roles_put demo_env ''65bd7d0203a909833fc9a986''
                         \<lparr>dto_role_name = ''R'', dto_serviceOpIds = [''65bd7c5403a909833fc9a97c'']\<rparr>
                         demo_store)) ''65bd7d0203a909833fc9a986'' =
       Some \<lparr>role_id = ''65bd7d0203a909833fc9a986'', role_name = ''R'',
             serviceOpIds = [''65bd7c5403a909833fc9a97c'']\<rparr>
   \<and> fst (roles_put demo_env ''65bd7d0203a909833fc9a986''
            \<lparr>dto_role_name = ''R'', dto_serviceOpIds = [''65bd7c5403a909833fc9a97c'']\<rparr>
            demo_store) =
       Inr (200, Json (Some \<lparr>role_id = ''65bd7d0203a909833fc9a986'', role_name = ''R'',
                             serviceOpIds = [''65bd7c5403a909833fc9a97c'']\<rparr>))"
  using roles_put_no_name_check
          [of demo_store "''65bd7d0203a909833fc9a986''"
              "\<lparr>role_id = ''65bd7d0203a909833fc9a986'', role_name = ''Readers'',
                serviceOpIds = [''65bd7c5403a909833fc9a97b'']\<rparr>"
              "\<lparr>dto_role_name = ''R'', dto_serviceOpIds = [''65bd7c5403a909833fc9a97c'']\<rparr>"
              demo_env]
  by (simp add: lookupRole_def registered_def validateRole_def ROLENAME_MIN_LENGTH_def
        demo_store_def demo_env_def)

section \<open>The links of a page\<close>

lemma lastIndexFrom_notin: "c \<notin> set xs \<Longrightarrow> lastIndexFrom xs c i seen = seen"
  by (induction xs arbitrary: i seen) auto

lemma lastIndexFrom_append:
  "lastIndexFrom (xs @ ys) c i seen = lastIndexFrom ys c (i + length xs) (lastIndexFrom xs c i seen)"
  by (induction xs arbitrary: i seen) auto

lemma lastIndexOf_last: "c \<notin> set post \<Longrightarrow> lastIndexOf (pre @ c # post) c = int (length pre)"
  by (simp add: lastIndexOf_def lastIndexFrom_append lastIndexFrom_notin)

lemma lastIndexOf_none: "c \<notin> set s \<Longrightarrow> lastIndexOf s c = - 1"
  by (simp add: lastIndexOf_def lastIndexFrom_notin)

lemma buildResponse_links:
  "links_prev (buildResponse url pn ps xs) =
     (if pn > 1 then Some (pageLink (links_base (buildResponse url pn ps xs)) ps (pn - 1)) else None)
   \<and> links_next (buildResponse url pn ps xs) =
     (if int (length xs) = ps
      then Some (pageLink (links_base (buildResponse url pn ps xs)) ps (pn + 1)) else None)
   \<and> results (buildResponse url pn ps xs) = xs
   \<and> ret_pageSize (buildResponse url pn ps xs) = ps
   \<and> ret_pageNumber (buildResponse url pn ps xs) = pn"
  by (simp add: buildResponse_def Let_def)

lemma buildResponse_base_no_query:
  "CHR ''?'' \<notin> set url \<Longrightarrow> links_base (buildResponse url pn ps xs) = url"
  by (simp add: buildResponse_def Let_def lastIndexOf_none)

lemma buildResponse_base_last:
  "CHR ''?'' \<notin> set post \<Longrightarrow>
   links_base (buildResponse (pre @ CHR ''?'' # post) pn ps xs) = pre"
  by (simp add: buildResponse_def Let_def lastIndexOf_last substring0_def)

lemma spec_stripQuery_first:
  "CHR ''?'' \<notin> set pre \<Longrightarrow> spec_stripQuery (pre @ CHR ''?'' # post) = pre"
  by (induction pre) (auto simp: spec_stripQuery_def)

lemma spec_stripQuery_none: "CHR ''?'' \<notin> set url \<Longrightarrow> spec_stripQuery url = url"
  by (induction url) (auto simp: spec_stripQuery_def)

lemma buildResponse_one_query:
  "CHR ''?'' \<notin> set pre \<Longrightarrow> CHR ''?'' \<notin> set post \<Longrightarrow>
   links_base (buildResponse (pre @ CHR ''?'' # post) pn ps xs) =
     spec_stripQuery (pre @ CHR ''?'' # post)"
  by (simp add: buildResponse_base_last spec_stripQuery_first)

text \<open>
  Claim C6, at a URL whose query contains a second question mark: the base link is the
  URL cut at its last \<open>?\<close>, which keeps the first part of the query, where the
  claim has the URL without its query string; the previous-page link is built on that
  base. (For a URL with at most one \<open>?\<close> the base link is the URL without its query,
  and in every case the previous link is present exactly for a page number above 1 and
  the next link exactly when the slice is as long as the page size: the lemmas above.)
\<close>

theorem buildResponse_second_question_mark:
  "links_base (buildResponse ''http://localhost:3000/api/v1/roles?pageNumber=2&name=a?b'' 2 10
                 ([] :: role list))
     = ''http://localhost:3000/api/v1/roles?pageNumber=2&name=a''
   \<and> spec_stripQuery ''http://localhost:3000/api/v1/roles?pageNumber=2&name=a?b''
     = ''http://localhost:3000/api/v1/roles''
   \<and> links_prev (buildResponse ''http://localhost:3000/api/v1/roles?pageNumber=2&name=a?b'' 2 10
                 ([] :: role list))
     = Some ''http://localhost:3000/api/v1/roles?pageNumber=2&name=a?pageSize=10&pageNumber=1''"
  by (simp add: buildResponse_def lastIndexOf_def substring0_def spec_stripQuery_def
        pageLink_def toString_def digits.simps digit_def Let_def)

end
